theory Spec2Isabelle
  imports Main "HOL-Library.Sublist"
begin

section \<open>OnboardMate: the data of \<open>onboardmate.py\<close>\<close>

text \<open>
  The strings the program writes itself and those typed into the page are modelled as HOL
  strings; a character stands for the code point of the same number. The text that comes
  back from the service goes on to the document font, which ends at code point 255, so it
  is a list of code points of any size. Exceptions are values: a function that may raise
  returns a sum whose left side is the exception.
\<close>

datatype exn =
    StopCandidateException string
  | KeyError string
  | ValueError
  | UnicodeEncodeError
  | OtherException string

type_synonym unicode = "nat list"

definition latin1 :: "string \<Rightarrow> unicode" where
  "latin1 s = map of_char s"

text \<open>
  \<open>employee_data\<close> is a dictionary from field names to strings; so is every row of the
  spreadsheet. A dictionary is an association list, looked up with \<open>map_of\<close>.
\<close>

type_synonym row = "(string \<times> string) list"

text \<open>
  The remote service. A response carries its candidates, each with a finish reason (taken
  as the string the source compares it with), and the \<open>text\<close> accessor, which either
  yields the text or raises \<open>ValueError\<close> (\<open>None\<close>). \<open>send_message\<close> on a chat opened with
  some history either returns a response or raises.
\<close>

record candidate =
  finish_reason :: string

record response =
  candidates :: "candidate list"
  response_text :: "unicode option"

type_synonym service = "string list \<Rightarrow> string \<Rightarrow> exn + response"

text \<open>The value of \<open>st.date_input\<close>: a calendar date.\<close>

record date =
  year :: nat
  month :: nat
  day :: nat

text \<open>What the page shows. Static captions and the emoji of the labels are left out.\<close>

datatype ui =
    Markdown unicode
  | Subheader string
  | Success string
  | Error string
  | Warning string
  | Dataframe "row list"
  | DownloadButton "string list" string string

text \<open>
  The world a run of the script acts on: the spreadsheet \<open>onboarding_data.xlsx\<close> (\<open>None\<close>
  while the file does not exist, otherwise its rows in order), the document
  \<open>onboarding_plan.pdf\<close> (the text of its cells in order), every message sent to the
  service together with the history of the chat it was sent on, the console, and the page.
  Reading and writing the two files is taken to succeed.
\<close>

record world =
  xlsx :: "row list option"
  pdf :: "string list option"
  sent :: "(string list \<times> string) list"
  stdout :: "string list"
  screen :: "ui list"

text \<open>The widgets of the page, as read by one run of \<open>main\<close>.\<close>

record inputs =
  api_key :: string
  name :: string
  role :: string
  department :: string
  start_date :: date
  previous_experience :: string
  goals :: string
  btn_generate_plan :: bool
  query :: string
  btn_get_assistance :: bool

section \<open>String operations of the Python library\<close>

text \<open>\<open>str.isspace\<close> on one character, for the code points below 256.\<close>

definition isspace :: "char \<Rightarrow> bool" where
  "isspace c = (of_char c \<in> {9, 10, 11, 12, 13, 28, 29, 30, 31, 32, 133, 160 :: nat})"

definition strip :: "string \<Rightarrow> string" where
  "strip s = rev (dropWhile isspace (rev (dropWhile isspace s)))"

text \<open>\<open>content.split("\n")\<close>: the empty string gives one empty line.\<close>

fun split_nl :: "unicode \<Rightarrow> unicode list" where
  "split_nl [] = [[]]"
| "split_nl (c # cs) =
     (if c = 10 then [] # split_nl cs
      else (case split_nl cs of [] \<Rightarrow> [[c]] | l # ls \<Rightarrow> (c # l) # ls))"

text \<open>
  \<open>str.format(**d)\<close> for templates with named fields and doubled braces. The second
  argument is the field name read so far (reversed) while inside a field. A value is
  inserted as it is and never scanned again. The leftmost fault is the one raised.
\<close>

definition prepend :: "string \<Rightarrow> exn + string \<Rightarrow> exn + string" where
  "prepend s r = (case r of Inl e \<Rightarrow> Inl e | Inr t \<Rightarrow> Inr (s @ t))"

fun format_from :: "string \<Rightarrow> string option \<Rightarrow> row \<Rightarrow> exn + string" where
  "format_from [] None d = Inr []"
| "format_from [] (Some k) d = Inl ValueError"
| "format_from (c # cs) None d =
     (if c = CHR ''{'' then
        (case cs of
           [] \<Rightarrow> Inl ValueError
         | c' # cs' \<Rightarrow>
             if c' = CHR ''{'' then prepend ''{'' (format_from cs' None d)
             else format_from cs (Some []) d)
      else if c = CHR ''}'' then
        (case cs of
           [] \<Rightarrow> Inl ValueError
         | c' # cs' \<Rightarrow>
             if c' = CHR ''}'' then prepend ''}'' (format_from cs' None d)
             else Inl ValueError)
      else prepend [c] (format_from cs None d))"
| "format_from (c # cs) (Some k) d =
     (if c = CHR ''}'' then
        (case map_of d (rev k) of
           None \<Rightarrow> Inl (KeyError (rev k))
         | Some v \<Rightarrow> prepend v (format_from cs None d))
      else format_from cs (Some (c # k)) d)"

definition format_str :: "string \<Rightarrow> row \<Rightarrow> exn + string" where
  "format_str template d = format_from template None d"

text \<open>\<open>strftime("%Y-%m-%d")\<close>: the year on four digits, month and day on two.\<close>

fun digits :: "nat \<Rightarrow> nat \<Rightarrow> string" where
  "digits 0 n = []"
| "digits (Suc k) n = digits k (n div 10) @ [char_of (48 + n mod 10)]"

definition strftime :: "date \<Rightarrow> string" where
  "strftime d = digits 4 (year d) @ ''-'' @ digits 2 (month d) @ ''-'' @ digits 2 (day d)"

section \<open>\<open>OnboardMateAgent\<close>\<close>

definition prompt_template :: string where
  "prompt_template =
     ''Create a personalized onboarding plan for a new hire with the following details:\<newline>'' @
     ''\<newline>'' @
     ''        *   **Name:** {name}\<newline>'' @
     ''        *   **Role:** {role}\<newline>'' @
     ''        *   **Department:** {department}\<newline>'' @
     ''        *   **Start Date:** {start_date}\<newline>'' @
     ''        *   **Previous Experience:** {previous_experience}\<newline>'' @
     ''        *   **Onboarding Goals:** {goals}\<newline>'' @
     ''\<newline>'' @
     ''        The plan should include:\<newline>'' @
     ''        - A checklist of tasks to be completed\<newline>'' @
     ''        - A schedule of onboarding sessions\<newline>'' @
     ''        - Links to relevant training materials\<newline>'' @
     ''        - Key contacts and resources\<newline>'' @
     ''\<newline>'' @
     ''        Write the onboarding plan in a clear and concise format.\<newline>'' @
     ''        ''"

text \<open>
  \<open>generate_onboarding_plan\<close>. The template is filled before the \<open>try\<close>, so a missing key
  propagates. The chat is opened with an empty history and the prompt is sent once.
  \<open>Inr None\<close> is the return value \<open>None\<close>; the \<open>except\<close> clause covers
  \<open>StopCandidateException\<close> only.
\<close>

definition generate_onboarding_plan ::
  "service \<Rightarrow> row \<Rightarrow> world \<Rightarrow> (exn + unicode option) \<times> world" where
  "generate_onboarding_plan svc employee_data w =
     (case format_str prompt_template employee_data of
        Inl e \<Rightarrow> (Inl e, w)
      | Inr final_prompt \<Rightarrow>
          (let w1 = w\<lparr>sent := sent w @ [([], final_prompt)]\<rparr> in
           case svc [] final_prompt of
             Inl e \<Rightarrow>
               (case e of
                  StopCandidateException m \<Rightarrow>
                    (Inr None, w1\<lparr>stdout := stdout w1 @ [''Error: '' @ m]\<rparr>)
                | _ \<Rightarrow> (Inl e, w1))
           | Inr response \<Rightarrow>
               (case candidates response of
                  c # cs \<Rightarrow>
                    if finish_reason c = ''RECITATION''
                    then (Inr None, w1\<lparr>stdout := stdout w1 @ [''RECITATION STOPPED'']\<rparr>)
                    else (case response_text response of
                            None \<Rightarrow> (Inl ValueError, w1)
                          | Some t \<Rightarrow> (Inr (Some t), w1))
                | [] \<Rightarrow>
                    (case response_text response of
                       None \<Rightarrow> (Inl ValueError, w1)
                     | Some t \<Rightarrow> (Inr (Some t), w1)))))"

definition assistance_prefix :: string where
  "assistance_prefix =
     ''Provide a detailed response to the following query from a new hire:\<newline>\<newline>''"

definition provide_knowledge_assistance ::
  "service \<Rightarrow> string \<Rightarrow> world \<Rightarrow> (exn + unicode) \<times> world" where
  "provide_knowledge_assistance svc q w =
     (let message = assistance_prefix @ q;
          w1 = w\<lparr>sent := sent w @ [([], message)]\<rparr> in
      case svc [] message of
        Inl e \<Rightarrow> (Inl e, w1)
      | Inr response \<Rightarrow>
          (case response_text response of
             None \<Rightarrow> (Inl ValueError, w1)
           | Some t \<Rightarrow> (Inr t, w1)))"

section \<open>The spreadsheet and the document\<close>

text \<open>
  \<open>save_to_excel\<close>: read the file when it exists and put the one-row frame of \<open>data\<close>
  after its rows, otherwise start from that frame; then write the whole frame.
\<close>

definition save_to_excel :: "row \<Rightarrow> world \<Rightarrow> world" where
  "save_to_excel data w =
     (let df = (case xlsx w of Some df \<Rightarrow> df @ [data] | None \<Rightarrow> [data])
      in w\<lparr>xlsx := Some df\<rparr>)"

text \<open>
  \<open>generate_pdf\<close>: one cell for each line of the content, in the built-in font \<open>Arial\<close>,
  whose encoding holds the code points up to 255 only. A line with a code point beyond
  them makes the library raise before the file is written; otherwise the file is written
  and its name returned.
\<close>

definition encodable :: "unicode \<Rightarrow> bool" where
  "encodable t = list_all (\<lambda>c. c < 256) t"

definition encode :: "unicode \<Rightarrow> string" where
  "encode t = map char_of t"

definition generate_pdf :: "unicode \<Rightarrow> world \<Rightarrow> (exn + string) \<times> world" where
  "generate_pdf content w =
     (let lines = split_nl content in
      if list_all encodable lines
      then (Inr ''onboarding_plan.pdf'', w\<lparr>pdf := Some (map encode lines)\<rparr>)
      else (Inl UnicodeEncodeError, w))"

section \<open>\<open>main\<close>\<close>

text \<open>
  A procedure of the script returns the exception it was left by, if any, and the world
  it leaves behind. A date object is true in a condition, whatever its value.
\<close>

definition date_truthy :: "date \<Rightarrow> bool" where
  "date_truthy d = True"

definition employee_data_of :: "inputs \<Rightarrow> row" where
  "employee_data_of inp =
     [(''name'', name inp),
      (''role'', role inp),
      (''department'', department inp),
      (''start_date'', strftime (start_date inp)),
      (''previous_experience'', previous_experience inp),
      (''goals'', goals inp)]"

definition show_ui :: "ui \<Rightarrow> world \<Rightarrow> world" where
  "show_ui u w = w\<lparr>screen := screen w @ [u]\<rparr>"

text \<open>The body of the \<open>Generate Onboarding Plan\<close> button.\<close>

definition main_generate_plan :: "service \<Rightarrow> inputs \<Rightarrow> world \<Rightarrow> exn option \<times> world" where
  "main_generate_plan svc inp w =
     (if list_ex (\<lambda>b. b)
           [strip (name inp) \<noteq> [], strip (role inp) \<noteq> [], strip (department inp) \<noteq> [],
            date_truthy (start_date inp),
            strip (previous_experience inp) \<noteq> [], strip (goals inp) \<noteq> []]
      then
        (let employee_data = employee_data_of inp in
         case generate_onboarding_plan svc employee_data w of
           (Inl e, w1) \<Rightarrow> (Some e, w1)
         | (Inr onboarding_plan, w1) \<Rightarrow>
             (case onboarding_plan of
                Some (c # cs) \<Rightarrow>
                  (let w2 = show_ui (Markdown (c # cs))
                              (show_ui (Markdown (latin1 ''### Generated Onboarding Plan'')) w1);
                       w3 = save_to_excel employee_data w2;
                       w4 = show_ui (Success ''Employee details saved to Excel file.'') w3
                   in case generate_pdf (c # cs) w4 of
                        (Inl e, w5) \<Rightarrow> (Some e, w5)
                      | (Inr pdf_file, w5) \<Rightarrow>
                          (case pdf w5 of
                             None \<Rightarrow> (Some (OtherException ''FileNotFoundError''), w5)
                           | Some file \<Rightarrow>
                               (None, show_ui (DownloadButton file ''onboarding_plan.pdf''
                                                 ''application/pdf'') w5)))
              | _ \<Rightarrow>
                  (None, show_ui (Error (''Onboarding plan generation failed due to '' @
                     ''recitation issues or an error. Please adjust the inputs.'')) w1)))
      else
        (None, show_ui (Warning (''Please provide required details for the onboarding plan '' @
           ''(Name, Role, Department, Start Date, Previous Experience, and Goals).'')) w))"

text \<open>The table of saved rows, shown when the spreadsheet exists.\<close>

definition show_saved_data :: "world \<Rightarrow> world" where
  "show_saved_data w =
     (case xlsx w of
        None \<Rightarrow> w
      | Some df \<Rightarrow> show_ui (Dataframe df) (show_ui (Subheader ''Saved Employee Data'') w))"

text \<open>The body of the \<open>Get Assistance\<close> button.\<close>

definition main_get_assistance :: "service \<Rightarrow> inputs \<Rightarrow> world \<Rightarrow> exn option \<times> world" where
  "main_get_assistance svc inp w =
     (if strip (query inp) \<noteq> [] then
        (case provide_knowledge_assistance svc (query inp) w of
           (Inl e, w1) \<Rightarrow> (Some e, w1)
         | (Inr knowledge_response, w1) \<Rightarrow>
             (None, show_ui (Markdown knowledge_response)
                      (show_ui (Markdown (latin1 ''### Knowledge Assistance'')) w1)))
      else (None, show_ui (Warning ''Please enter a query to get assistance.'') w))"

text \<open>
  One run of the script: the key is checked first; then the first tab with its button and
  the saved rows, then the second tab with its button. An exception ends the run.
\<close>

definition main :: "service \<Rightarrow> inputs \<Rightarrow> world \<Rightarrow> exn option \<times> world" where
  "main svc inp w =
     (if api_key inp = [] then
        (None, show_ui (Error ''API key not found in environment variables! Set GEMINI_API_KEY.'') w)
      else
        (case (if btn_generate_plan inp then main_generate_plan svc inp w else (None, w)) of
           (Some e, w1) \<Rightarrow> (Some e, w1)
         | (None, w1) \<Rightarrow>
             (let w2 = show_saved_data w1 in
              if btn_get_assistance inp then main_get_assistance svc inp w2 else (None, w2))))"

definition is_download :: "ui \<Rightarrow> bool" where
  "is_download u = (case u of DownloadButton _ _ _ \<Rightarrow> True | _ \<Rightarrow> False)"

definition downloads :: "world \<Rightarrow> ui list" where
  "downloads w = filter is_download (screen w)"

definition row_count :: "row list option \<Rightarrow> nat" where
  "row_count f = (case f of None \<Rightarrow> 0 | Some df \<Rightarrow> length df)"

section \<open>The text of the template around its fields\<close>

text \<open>
  The seven pieces of literal text of \<open>prompt_template\<close>, before, between and after its six
  fields, and the text they make with six values put between them.
\<close>

definition fixed_text :: "string list" where
  "fixed_text =
     [''Create a personalized onboarding plan for a new hire with the following details:\<newline>'' @
      ''\<newline>'' @
      ''        *   **Name:** '',
      ''\<newline>        *   **Role:** '',
      ''\<newline>        *   **Department:** '',
      ''\<newline>        *   **Start Date:** '',
      ''\<newline>        *   **Previous Experience:** '',
      ''\<newline>        *   **Onboarding Goals:** '',
      ''\<newline>'' @
      ''\<newline>'' @
      ''        The plan should include:\<newline>'' @
      ''        - A checklist of tasks to be completed\<newline>'' @
      ''        - A schedule of onboarding sessions\<newline>'' @
      ''        - Links to relevant training materials\<newline>'' @
      ''        - Key contacts and resources\<newline>'' @
      ''\<newline>'' @
      ''        Write the onboarding plan in a clear and concise format.\<newline>'' @
      ''        '']"

definition filled ::
  "string \<Rightarrow> string \<Rightarrow> string \<Rightarrow> string \<Rightarrow> string \<Rightarrow> string \<Rightarrow> string" where
  "filled n r dep sd pe g =
     fixed_text ! 0 @ n @ fixed_text ! 1 @ r @ fixed_text ! 2 @ dep @ fixed_text ! 3 @ sd @
     fixed_text ! 4 @ pe @ fixed_text ! 5 @ g @ fixed_text ! 6"

section \<open>Example inputs\<close>

text \<open>A service that answers every message the same way, and some pages and worlds.\<close>

definition reply :: "exn + response \<Rightarrow> service" where
  "reply r history message = r"

definition answer :: "string \<Rightarrow> string \<Rightarrow> exn + response" where
  "answer reason t =
     Inr \<lparr>candidates = [\<lparr>finish_reason = reason\<rparr>], response_text = Some (latin1 t)\<rparr>"

definition jane :: inputs where
  "jane =
     \<lparr>api_key = ''secret'', name = ''Jane Doe'', role = ''Engineer'', department = ''R&D'',
      start_date = \<lparr>year = 2024, month = 3, day = 1\<rparr>,
      previous_experience = ''3 years backend'', goals = ''ship onboarding docs'',
      btn_generate_plan = True, query = [], btn_get_assistance = False\<rparr>"

definition john :: inputs where
  "john =
     \<lparr>api_key = ''secret'', name = ''Doe'', role = ''Team Lead'', department = ''Support'',
      start_date = \<lparr>year = 2024, month = 4, day = 15\<rparr>,
      previous_experience = ''2 years helpdesk'', goals = ''learn the ticket system'',
      btn_generate_plan = True, query = [], btn_get_assistance = False\<rparr>"

definition asking :: "string \<Rightarrow> inputs" where
  "asking q = jane\<lparr>btn_generate_plan := False, query := q, btn_get_assistance := True\<rparr>"

definition fresh :: world where
  "fresh = \<lparr>xlsx = None, pdf = None, sent = [], stdout = [], screen = []\<rparr>"

definition used :: world where
  "used = fresh\<lparr>xlsx := Some [employee_data_of john]\<rparr>"

section \<open>Facts about the string operations\<close>

lemma split_nl_nonempty: "split_nl s \<noteq> []"
  by (induction s) (auto split: list.splits)

lemma length_split_nl: "length (split_nl s) = count_list s 10 + 1"
  by (induction s) (auto split: list.splits simp: split_nl_nonempty)

lemma encodable_lines: "list_all encodable (split_nl t) \<longleftrightarrow> encodable t"
  by (induction t) (auto split: list.splits simp: split_nl_nonempty encodable_def)

lemma latin1_Nil [simp]: "latin1 [] = []"
  by (simp add: latin1_def)

lemma encode_latin1: "encode (latin1 s) = s"
  by (simp add: encode_def latin1_def comp_def)

lemma encodable_latin1: "encodable (latin1 s)"
  by (simp add: encodable_def latin1_def list_all_iff)

lemma dropWhile_all: "(\<forall>x \<in> set (dropWhile P s). P x) \<longleftrightarrow> (\<forall>x \<in> set s. P x)"
  by (induction s) auto

lemma strip_Nil_iff: "strip s = [] \<longleftrightarrow> (\<forall>c \<in> set s. isspace c)"
  by (simp add: strip_def dropWhile_eq_Nil_conv dropWhile_all)

lemma prepend_Nil: "prepend [] r = r"
  by (cases r) (simp_all add: prepend_def)

lemma prepend_prepend: "prepend s (prepend t r) = prepend (s @ t) r"
  by (cases r) (simp_all add: prepend_def)

lemma prepend_Inr: "prepend s (Inr t) = Inr (s @ t)"
  by (simp add: prepend_def)

lemma format_from_plain:
  "CHR ''{'' \<notin> set s \<Longrightarrow> CHR ''}'' \<notin> set s \<Longrightarrow>
   format_from (s @ t) None d = prepend s (format_from t None d)"
  by (induction s) (auto simp: prepend_Nil prepend_prepend)

lemma format_from_plain_end:
  "CHR ''{'' \<notin> set s \<Longrightarrow> CHR ''}'' \<notin> set s \<Longrightarrow> format_from s None d = Inr s"
  using format_from_plain [of s "[]" d] by (simp add: prepend_def)

lemma format_from_name:
  "CHR ''}'' \<notin> set k \<Longrightarrow>
   format_from (k @ CHR ''}'' # t) (Some acc) d =
     (case map_of d (rev acc @ k) of
        None \<Rightarrow> Inl (KeyError (rev acc @ k))
      | Some v \<Rightarrow> prepend v (format_from t None d))"
  by (induction k arbitrary: acc) (auto split: option.splits)

lemma format_from_field:
  assumes "CHR ''}'' \<notin> set k" "k \<noteq> []" "hd k \<noteq> CHR ''{''" "map_of d k = Some v"
  shows "format_from (CHR ''{'' # k @ CHR ''}'' # t) None d = prepend v (format_from t None d)"
proof -
  obtain c k' where k: "k = c # k'" using assms(2) by (cases k) auto
  have "format_from (CHR ''{'' # k @ CHR ''}'' # t) None d =
        format_from (k @ CHR ''}'' # t) (Some []) d"
    using assms(3) by (simp add: k)
  then show ?thesis using assms(1,4) by (simp add: format_from_name)
qed

lemma template_split:
  "prompt_template =
     fixed_text ! 0 @ CHR ''{'' # ''name'' @ CHR ''}'' #
     fixed_text ! 1 @ CHR ''{'' # ''role'' @ CHR ''}'' #
     fixed_text ! 2 @ CHR ''{'' # ''department'' @ CHR ''}'' #
     fixed_text ! 3 @ CHR ''{'' # ''start_date'' @ CHR ''}'' #
     fixed_text ! 4 @ CHR ''{'' # ''previous_experience'' @ CHR ''}'' #
     fixed_text ! 5 @ CHR ''{'' # ''goals'' @ CHR ''}'' #
     fixed_text ! 6 @ []"
  by (simp add: prompt_template_def fixed_text_def)

lemma fixed_text_plain:
  "i < 7 \<Longrightarrow> CHR ''{'' \<notin> set (fixed_text ! i) \<and> CHR ''}'' \<notin> set (fixed_text ! i)"
proof -
  have "\<forall>s \<in> set fixed_text. CHR ''{'' \<notin> set s \<and> CHR ''}'' \<notin> set s"
    by (simp add: fixed_text_def)
  moreover have "length fixed_text = 7" by (simp add: fixed_text_def)
  ultimately show "i < 7 \<Longrightarrow> ?thesis" by (metis nth_mem)
qed

lemma format_prompt:
  assumes "map_of d ''name'' = Some n" "map_of d ''role'' = Some r"
    "map_of d ''department'' = Some dep" "map_of d ''start_date'' = Some sd"
    "map_of d ''previous_experience'' = Some pe" "map_of d ''goals'' = Some g"
  shows "format_str prompt_template d = Inr (filled n r dep sd pe g)"
  unfolding format_str_def template_split
  using assms
  by (simp add: format_from_plain format_from_plain_end fixed_text_plain format_from_field
      filled_def prepend_Inr)

lemma format_employee_data:
  "format_str prompt_template (employee_data_of inp) =
     Inr (filled (name inp) (role inp) (department inp) (strftime (start_date inp))
            (previous_experience inp) (goals inp))"
  by (rule format_prompt) (simp_all add: employee_data_of_def)

section \<open>What each operation leaves alone\<close>

lemma show_ui_frame [simp]:
  "xlsx (show_ui u w) = xlsx w" "pdf (show_ui u w) = pdf w" "sent (show_ui u w) = sent w"
  "stdout (show_ui u w) = stdout w" "screen (show_ui u w) = screen w @ [u]"
  by (simp_all add: show_ui_def)

lemma downloads_show_ui [simp]:
  "downloads (show_ui u w) = downloads w @ (if is_download u then [u] else [])"
  by (simp add: downloads_def)

lemma is_download_simps [simp]:
  "is_download (DownloadButton f n m)" "\<not> is_download (Markdown t)"
  "\<not> is_download (Subheader s)" "\<not> is_download (Success s)" "\<not> is_download (Error s)"
  "\<not> is_download (Warning s)" "\<not> is_download (Dataframe df)"
  by (simp_all add: is_download_def)

lemma generate_onboarding_plan_frame:
  assumes "generate_onboarding_plan svc d w = (r, w1)"
  shows "xlsx w1 = xlsx w" "pdf w1 = pdf w" "screen w1 = screen w" "downloads w1 = downloads w"
  using assms
  by (auto simp: generate_onboarding_plan_def Let_def downloads_def
      split: sum.splits exn.splits list.splits option.splits if_splits)

lemma provide_knowledge_assistance_frame:
  assumes "provide_knowledge_assistance svc q w = (r, w1)"
  shows "xlsx w1 = xlsx w" "pdf w1 = pdf w" "screen w1 = screen w" "downloads w1 = downloads w"
    "stdout w1 = stdout w" "sent w1 = sent w @ [([], assistance_prefix @ q)]"
  using assms
  by (auto simp: provide_knowledge_assistance_def Let_def downloads_def
      split: sum.splits option.splits)

lemma show_saved_data_frame [simp]:
  "xlsx (show_saved_data w) = xlsx w" "pdf (show_saved_data w) = pdf w"
  "sent (show_saved_data w) = sent w" "stdout (show_saved_data w) = stdout w"
  "downloads (show_saved_data w) = downloads w"
  by (simp_all add: show_saved_data_def split: option.splits)

lemma main_get_assistance_frame [simp]:
  "xlsx (snd (main_get_assistance svc inp w)) = xlsx w"
  "pdf (snd (main_get_assistance svc inp w)) = pdf w"
  "downloads (snd (main_get_assistance svc inp w)) = downloads w"
proof -
  obtain r w1 where p: "provide_knowledge_assistance svc (query inp) w = (r, w1)"
    by (cases "provide_knowledge_assistance svc (query inp) w")
  note f = provide_knowledge_assistance_frame [OF p]
  show "xlsx (snd (main_get_assistance svc inp w)) = xlsx w"
    by (cases r) (simp_all add: main_get_assistance_def p f)
  show "pdf (snd (main_get_assistance svc inp w)) = pdf w"
    by (cases r) (simp_all add: main_get_assistance_def p f)
  show "downloads (snd (main_get_assistance svc inp w)) = downloads w"
    by (cases r) (simp_all add: main_get_assistance_def p f)
qed

section \<open>Facts about \<open>main\<close>\<close>

lemma main_skip_plan:
  assumes "api_key inp \<noteq> []" "\<not> btn_generate_plan inp"
  shows "main svc inp w =
     (if btn_get_assistance inp then main_get_assistance svc inp (show_saved_data w)
      else (None, show_saved_data w))"
  using assms by (simp add: main_def Let_def)

lemma main_after_plan:
  assumes "api_key inp \<noteq> []" "btn_generate_plan inp" "main_generate_plan svc inp w = (None, w1)"
  shows "xlsx (snd (main svc inp w)) = xlsx w1" "pdf (snd (main svc inp w)) = pdf w1"
    "downloads (snd (main svc inp w)) = downloads w1"
  using assms by (simp_all add: main_def Let_def)

lemma main_generate_plan_failure:
  assumes "generate_onboarding_plan svc (employee_data_of inp) w = (Inr r, w1)"
    and "r = None \<or> r = Some []"
  shows "main_generate_plan svc inp w =
     (None, show_ui (Error (''Onboarding plan generation failed due to '' @
        ''recitation issues or an error. Please adjust the inputs.'')) w1)"
  using assms by (auto simp: main_generate_plan_def date_truthy_def)

lemma generate_pdf_encodable:
  "encodable t \<Longrightarrow>
   generate_pdf t w = (Inr ''onboarding_plan.pdf'', w\<lparr>pdf := Some (map encode (split_nl t))\<rparr>)"
  by (simp add: generate_pdf_def encodable_lines)

lemma generate_pdf_unencodable:
  "\<not> encodable t \<Longrightarrow> generate_pdf t w = (Inl UnicodeEncodeError, w)"
  by (simp add: generate_pdf_def encodable_lines)

lemma downloads_pdf_update [simp]: "downloads (w\<lparr>pdf := x\<rparr>) = downloads w"
  by (simp add: downloads_def)

lemma main_generate_plan_success:
  assumes "generate_onboarding_plan svc (employee_data_of inp) w = (Inr (Some t), w1)"
    and "t \<noteq> []" and "encodable t"
  shows "main_generate_plan svc inp w =
     (None,
      show_ui (DownloadButton (map encode (split_nl t)) ''onboarding_plan.pdf''
                 ''application/pdf'')
        ((show_ui (Success ''Employee details saved to Excel file.'')
            (save_to_excel (employee_data_of inp)
              (show_ui (Markdown t)
                (show_ui (Markdown (latin1 ''### Generated Onboarding Plan'')) w1))))
         \<lparr>pdf := Some (map encode (split_nl t))\<rparr>))"
proof -
  obtain c cs where t: "t = c # cs" using assms(2) by (cases t) auto
  show ?thesis
    using assms(1) generate_pdf_encodable [OF assms(3)] unfolding t
    by (simp add: main_generate_plan_def date_truthy_def Let_def)
qed

lemma main_generate_plan_unencodable:
  assumes "generate_onboarding_plan svc (employee_data_of inp) w = (Inr (Some t), w1)"
    and "t \<noteq> []" and "\<not> encodable t"
  shows "main_generate_plan svc inp w =
     (Some UnicodeEncodeError,
      show_ui (Success ''Employee details saved to Excel file.'')
        (save_to_excel (employee_data_of inp)
          (show_ui (Markdown t)
            (show_ui (Markdown (latin1 ''### Generated Onboarding Plan'')) w1))))"
proof -
  obtain c cs where t: "t = c # cs" using assms(2) by (cases t) auto
  show ?thesis
    using assms(1) generate_pdf_unencodable [OF assms(3)] unfolding t
    by (simp add: main_generate_plan_def date_truthy_def Let_def)
qed

lemma save_to_excel_frame [simp]:
  "pdf (save_to_excel data w) = pdf w" "sent (save_to_excel data w) = sent w"
  "stdout (save_to_excel data w) = stdout w" "screen (save_to_excel data w) = screen w"
  "downloads (save_to_excel data w) = downloads w"
  by (simp_all add: save_to_excel_def downloads_def)

lemma xlsx_save_to_excel:
  "xlsx (save_to_excel data w) =
     Some ((case xlsx w of None \<Rightarrow> [] | Some df \<Rightarrow> df) @ [data])"
  by (simp add: save_to_excel_def split: option.splits)

lemma generate_pdf_frame [simp]:
  "xlsx (snd (generate_pdf content w)) = xlsx w" "sent (snd (generate_pdf content w)) = sent w"
  "screen (snd (generate_pdf content w)) = screen w"
  "downloads (snd (generate_pdf content w)) = downloads w"
  by (simp_all add: generate_pdf_def downloads_def Let_def)

text \<open>
  A plan with a code point that the document font does not hold: the row has been written
  when \<open>generate_pdf\<close> raises, and the run ends there with neither document nor download.
\<close>

lemma unencodable_plan_saves_row_then_raises:
  assumes "api_key inp \<noteq> []" and "btn_generate_plan inp"
    and "fst (generate_onboarding_plan svc (employee_data_of inp) w) = Inr (Some t)"
    and "t \<noteq> []" and "\<not> encodable t"
  shows "fst (main svc inp w) = Some UnicodeEncodeError"
    "xlsx (snd (main svc inp w))
       = Some ((case xlsx w of None \<Rightarrow> [] | Some df \<Rightarrow> df) @ [employee_data_of inp])"
    "pdf (snd (main svc inp w)) = pdf w" "downloads (snd (main svc inp w)) = downloads w"
proof -
  obtain w1 where g: "generate_onboarding_plan svc (employee_data_of inp) w = (Inr (Some t), w1)"
    using assms(3) by (cases "generate_onboarding_plan svc (employee_data_of inp) w") auto
  note f = generate_onboarding_plan_frame [OF g]
  note m = main_generate_plan_unencodable [OF g assms(4,5)]
  show "fst (main svc inp w) = Some UnicodeEncodeError"
    using assms(1,2) by (simp add: main_def m)
  show "xlsx (snd (main svc inp w))
       = Some ((case xlsx w of None \<Rightarrow> [] | Some df \<Rightarrow> df) @ [employee_data_of inp])"
    using assms(1,2) by (simp add: main_def m xlsx_save_to_excel f)
  show "pdf (snd (main svc inp w)) = pdf w" "downloads (snd (main svc inp w)) = downloads w"
    using assms(1,2) by (simp_all add: main_def m f)
qed

lemma screen_grows:
  "set (screen w) \<subseteq> set (screen (show_saved_data w))"
  "set (screen w) \<subseteq> set (screen (snd (main_get_assistance svc inp w)))"
proof -
  show "set (screen w) \<subseteq> set (screen (show_saved_data w))"
    by (auto simp: show_saved_data_def split: option.splits)
  obtain r w1 where p: "provide_knowledge_assistance svc (query inp) w = (r, w1)"
    by (cases "provide_knowledge_assistance svc (query inp) w")
  show "set (screen w) \<subseteq> set (screen (snd (main_get_assistance svc inp w)))"
    by (cases r)
      (auto simp: main_get_assistance_def p provide_knowledge_assistance_frame [OF p])
qed

lemma main_keeps_banner:
  assumes "api_key inp \<noteq> []" "btn_generate_plan inp" "main_generate_plan svc inp w = (None, w1)"
  shows "set (screen w1) \<subseteq> set (screen (snd (main svc inp w)))"
  using assms screen_grows(1) [of w1] screen_grows(2) [of "show_saved_data w1" svc inp]
  by (auto simp: main_def Let_def)

lemma unusable_plan:
  assumes "api_key inp \<noteq> []" and "btn_generate_plan inp"
    and "fst (generate_onboarding_plan svc (employee_data_of inp) w) = Inr r"
    and "r = None \<or> r = Some []"
  shows "xlsx (snd (main svc inp w)) = xlsx w" "pdf (snd (main svc inp w)) = pdf w"
    "downloads (snd (main svc inp w)) = downloads w"
    "Error (''Onboarding plan generation failed due to '' @
        ''recitation issues or an error. Please adjust the inputs.'')
       \<in> set (screen (snd (main svc inp w)))"
proof -
  obtain w1 where g: "generate_onboarding_plan svc (employee_data_of inp) w = (Inr r, w1)"
    using assms(3) by (cases "generate_onboarding_plan svc (employee_data_of inp) w") auto
  note f = generate_onboarding_plan_frame [OF g]
  note m = main_generate_plan_failure [OF g assms(4)]
  show "xlsx (snd (main svc inp w)) = xlsx w" "pdf (snd (main svc inp w)) = pdf w"
    "downloads (snd (main svc inp w)) = downloads w"
    using main_after_plan [OF assms(1,2) m] by (simp_all add: f)
  show "Error (''Onboarding plan generation failed due to '' @
        ''recitation issues or an error. Please adjust the inputs.'')
       \<in> set (screen (snd (main svc inp w)))"
    using main_keeps_banner [OF assms(1,2) m] by auto
qed

lemma generation_of_reply:
  "fst (generate_onboarding_plan (reply (answer reason t)) (employee_data_of inp) w)
     = (if reason = ''RECITATION'' then Inr None else Inr (Some (latin1 t)))"
  by (simp add: generate_onboarding_plan_def format_employee_data reply_def answer_def)

lemma sublist_filled_name: "sublist v n \<Longrightarrow> sublist v (filled n r dep sd pe g)"
proof -
  assume "sublist v n"
  then obtain ps ss where n: "n = ps @ v @ ss" by (auto simp: sublist_def)
  have "filled n r dep sd pe g =
        (fixed_text ! 0 @ ps) @ v @
        (ss @ fixed_text ! 1 @ r @ fixed_text ! 2 @ dep @ fixed_text ! 3 @ sd @
         fixed_text ! 4 @ pe @ fixed_text ! 5 @ g @ fixed_text ! 6)"
    by (simp add: filled_def n)
  then show ?thesis by (metis sublist_appendI)
qed

section \<open>The claims\<close>

text \<open>
  C1. When \<open>generate_onboarding_plan\<close> returns \<open>None\<close> for a submitted plan, the run of
  \<open>main\<close> leaves the spreadsheet as it was (so its row count too), writes no document and
  offers no download; the failure banner is what the page gets.
\<close>

theorem filtered_plan_writes_nothing:
  assumes "api_key inp \<noteq> []" and "btn_generate_plan inp"
    and "fst (generate_onboarding_plan svc (employee_data_of inp) w) = Inr None"
  shows "xlsx (snd (main svc inp w)) = xlsx w
       \<and> row_count (xlsx (snd (main svc inp w))) = row_count (xlsx w)
       \<and> pdf (snd (main svc inp w)) = pdf w
       \<and> downloads (snd (main svc inp w)) = downloads w"
proof -
  obtain w1 where g: "generate_onboarding_plan svc (employee_data_of inp) w = (Inr None, w1)"
    using assms(3) by (cases "generate_onboarding_plan svc (employee_data_of inp) w") auto
  note f = generate_onboarding_plan_frame [OF g]
  have m: "main_generate_plan svc inp w =
     (None, show_ui (Error (''Onboarding plan generation failed due to '' @
        ''recitation issues or an error. Please adjust the inputs.'')) w1)"
    by (rule main_generate_plan_failure [OF g]) simp
  show ?thesis
    using main_after_plan [OF assms(1,2) m] by (simp add: f)
qed

theorem filtered_plan_writes_nothing_witness:
  "api_key jane \<noteq> [] \<and> btn_generate_plan jane
   \<and> fst (generate_onboarding_plan (reply (answer ''RECITATION'' ''copied text''))
            (employee_data_of jane) used) = Inr None
   \<and> row_count (xlsx (snd (main (reply (answer ''RECITATION'' ''copied text'')) jane used))) = 1
   \<and> pdf (snd (main (reply (answer ''RECITATION'' ''copied text'')) jane used)) = None
   \<and> downloads (snd (main (reply (answer ''RECITATION'' ''copied text'')) jane used)) = []"
proof -
  have h1: "api_key jane \<noteq> []" and h2: "btn_generate_plan jane"
    by (simp_all add: jane_def)
  have h3: "fst (generate_onboarding_plan (reply (answer ''RECITATION'' ''copied text''))
            (employee_data_of jane) used) = Inr None"
    by (simp add: generate_onboarding_plan_def format_employee_data reply_def answer_def)
  show ?thesis
    using h1 h2 h3 filtered_plan_writes_nothing [OF h1 h2 h3]
    by (simp add: used_def fresh_def row_count_def downloads_def)
qed

text \<open>
  C2. \<open>generate_onboarding_plan\<close> on a filled template: a first candidate stopped for
  recitation and a \<open>StopCandidateException\<close> both give the return value \<open>None\<close>, not an
  exception; a response that is not stopped for recitation gives its text, or the
  \<open>ValueError\<close> of reading it; any other exception of the service reaches the caller as it
  is, which is not the value \<open>None\<close>.
  The prompt is sent once, on a chat with an empty history.
\<close>

theorem generation_is_classified:
  assumes "format_str prompt_template d = Inr p"
  shows "(\<forall>r c cs. svc [] p = Inr r \<and> candidates r = c # cs \<and> finish_reason c = ''RECITATION''
            \<longrightarrow> fst (generate_onboarding_plan svc d w) = Inr None)
       \<and> (\<forall>m. svc [] p = Inl (StopCandidateException m)
            \<longrightarrow> fst (generate_onboarding_plan svc d w) = Inr None)
       \<and> (\<forall>r t. svc [] p = Inr r \<and> response_text r = Some t
              \<and> (\<forall>c cs. candidates r = c # cs \<longrightarrow> finish_reason c \<noteq> ''RECITATION'')
            \<longrightarrow> fst (generate_onboarding_plan svc d w) = Inr (Some t))
       \<and> (\<forall>r. svc [] p = Inr r \<and> response_text r = None
              \<and> (\<forall>c cs. candidates r = c # cs \<longrightarrow> finish_reason c \<noteq> ''RECITATION'')
            \<longrightarrow> fst (generate_onboarding_plan svc d w) = Inl ValueError)
       \<and> (\<forall>e. svc [] p = Inl e \<and> (\<forall>m. e \<noteq> StopCandidateException m)
            \<longrightarrow> fst (generate_onboarding_plan svc d w) = Inl e)
       \<and> sent (snd (generate_onboarding_plan svc d w)) = sent w @ [([], p)]"
proof -
  have recitation: "fst (generate_onboarding_plan svc d w) = Inr None"
    if "svc [] p = Inr r" "candidates r = c # cs" "finish_reason c = ''RECITATION''" for r c cs
    using that assms by (simp add: generate_onboarding_plan_def)
  have stopped: "fst (generate_onboarding_plan svc d w) = Inr None"
    if "svc [] p = Inl (StopCandidateException m)" for m
    using that assms by (simp add: generate_onboarding_plan_def)
  have success: "fst (generate_onboarding_plan svc d w) = Inr (Some t)"
    if "svc [] p = Inr r" "response_text r = Some t"
      "\<forall>c cs. candidates r = c # cs \<longrightarrow> finish_reason c \<noteq> ''RECITATION''" for r t
    using that assms
    by (cases "candidates r") (simp_all add: generate_onboarding_plan_def Let_def)
  have unreadable: "fst (generate_onboarding_plan svc d w) = Inl ValueError"
    if "svc [] p = Inr r" "response_text r = None"
      "\<forall>c cs. candidates r = c # cs \<longrightarrow> finish_reason c \<noteq> ''RECITATION''" for r
    using that assms
    by (cases "candidates r") (simp_all add: generate_onboarding_plan_def Let_def)
  have fault: "fst (generate_onboarding_plan svc d w) = Inl e"
    if "svc [] p = Inl e" "\<forall>m. e \<noteq> StopCandidateException m" for e
    using that assms by (cases e) (simp_all add: generate_onboarding_plan_def)
  have once: "sent (snd (generate_onboarding_plan svc d w)) = sent w @ [([], p)]"
    using assms
    by (simp add: generate_onboarding_plan_def Let_def
        split: sum.splits exn.splits list.splits option.splits)
  show ?thesis
    using recitation stopped success unreadable fault once by blast
qed

theorem generation_is_classified_witness:
  "format_str prompt_template (employee_data_of jane)
     = Inr (filled ''Jane Doe'' ''Engineer'' ''R&D'' (strftime (start_date jane))
              ''3 years backend'' ''ship onboarding docs'')
   \<and> fst (generate_onboarding_plan (reply (answer ''RECITATION'' ''copied text''))
            (employee_data_of jane) fresh) = Inr None
   \<and> fst (generate_onboarding_plan (reply (Inl (StopCandidateException ''stopped'')))
            (employee_data_of jane) fresh) = Inr None
   \<and> fst (generate_onboarding_plan (reply (answer ''STOP'' ''Day 1: meet team''))
            (employee_data_of jane) fresh) = Inr (Some (latin1 ''Day 1: meet team''))
   \<and> fst (generate_onboarding_plan (reply (Inl (OtherException ''ConnectionError'')))
            (employee_data_of jane) fresh) = Inl (OtherException ''ConnectionError'')
   \<and> length (sent (snd (generate_onboarding_plan
        (reply (Inl (OtherException ''ConnectionError''))) (employee_data_of jane) fresh))) = 1"
proof -
  have h: "format_str prompt_template (employee_data_of jane)
     = Inr (filled ''Jane Doe'' ''Engineer'' ''R&D'' (strftime (start_date jane))
              ''3 years backend'' ''ship onboarding docs'')"
    using format_employee_data [of jane] by (simp add: jane_def)
  show ?thesis
    using h
      generation_is_classified [OF h, of "reply (answer ''RECITATION'' ''copied text'')" fresh]
      generation_is_classified [OF h, of "reply (Inl (StopCandidateException ''stopped''))" fresh]
      generation_is_classified [OF h, of "reply (answer ''STOP'' ''Day 1: meet team'')" fresh]
      generation_is_classified [OF h, of "reply (Inl (OtherException ''ConnectionError''))" fresh]
    by (simp add: reply_def answer_def fresh_def)
qed

text \<open>
  C3, as the claim states it, fails: a generation that succeeds with the empty string
  appends no row and exports no document.
\<close>

theorem empty_success_appends_no_row:
  "fst (generate_onboarding_plan (reply (answer ''STOP'' [])) (employee_data_of jane) used)
     = Inr (Some [])
   \<and> row_count (xlsx (snd (main (reply (answer ''STOP'' [])) jane used)))
       \<noteq> row_count (xlsx used) + 1
   \<and> pdf (snd (main (reply (answer ''STOP'' [])) jane used)) = None"
proof -
  have h1: "api_key jane \<noteq> []" and h2: "btn_generate_plan jane"
    by (simp_all add: jane_def)
  have h3: "fst (generate_onboarding_plan (reply (answer ''STOP'' [])) (employee_data_of jane)
              used) = Inr (Some [])"
    by (simp add: generation_of_reply)
  show ?thesis
    using h3 unusable_plan(1,2) [OF h1 h2 h3]
    by (simp add: used_def fresh_def)
qed

text \<open>
  C3, amended. When the generation succeeds with a text that is not empty and that the
  document font can encode (no code point beyond 255), the run of \<open>main\<close> puts exactly one
  row, the submitted one, after the rows of the spreadsheet, so that the row count grows by
  one; it writes one document, whose lines are those of the text, one more than the text
  has line breaks; and it offers that document for download.
\<close>

theorem plan_is_saved_and_exported:
  assumes "api_key inp \<noteq> []" and "btn_generate_plan inp"
    and "fst (generate_onboarding_plan svc (employee_data_of inp) w) = Inr (Some t)"
    and "t \<noteq> []" and "encodable t"
  shows "xlsx (snd (main svc inp w))
           = Some ((case xlsx w of None \<Rightarrow> [] | Some df \<Rightarrow> df) @ [employee_data_of inp])
       \<and> row_count (xlsx (snd (main svc inp w))) = row_count (xlsx w) + 1
       \<and> pdf (snd (main svc inp w)) = Some (map encode (split_nl t))
       \<and> length (map encode (split_nl t)) = count_list t 10 + 1
       \<and> downloads (snd (main svc inp w))
           = downloads w @ [DownloadButton (map encode (split_nl t)) ''onboarding_plan.pdf''
                              ''application/pdf'']"
proof -
  obtain w1 where g: "generate_onboarding_plan svc (employee_data_of inp) w = (Inr (Some t), w1)"
    using assms(3) by (cases "generate_onboarding_plan svc (employee_data_of inp) w") auto
  note f = generate_onboarding_plan_frame [OF g]
  note m = main_generate_plan_success [OF g assms(4,5)]
  note a = main_after_plan [OF assms(1,2) m]
  have x: "xlsx (snd (main svc inp w))
           = Some ((case xlsx w of None \<Rightarrow> [] | Some df \<Rightarrow> df) @ [employee_data_of inp])"
    using a(1) by (simp add: xlsx_save_to_excel f)
  have p: "pdf (snd (main svc inp w)) = Some (map encode (split_nl t))"
    using a(2) by simp
  have d: "downloads (snd (main svc inp w))
           = downloads w @ [DownloadButton (map encode (split_nl t)) ''onboarding_plan.pdf''
                              ''application/pdf'']"
    using a(3) by (simp add: f)
  have c: "row_count (xlsx (snd (main svc inp w))) = row_count (xlsx w) + 1"
    unfolding x by (simp add: row_count_def split: option.splits)
  show ?thesis
    using x c p d length_split_nl by simp
qed

theorem plan_is_saved_and_exported_witness:
  "api_key jane \<noteq> [] \<and> btn_generate_plan jane
   \<and> fst (generate_onboarding_plan
            (reply (answer ''STOP'' ''Day 1: meet team\<newline>Day 2: setup laptop''))
            (employee_data_of jane) used)
       = Inr (Some (latin1 ''Day 1: meet team\<newline>Day 2: setup laptop''))
   \<and> latin1 ''Day 1: meet team\<newline>Day 2: setup laptop'' \<noteq> []
   \<and> encodable (latin1 ''Day 1: meet team\<newline>Day 2: setup laptop'')
   \<and> xlsx (snd (main (reply (answer ''STOP'' ''Day 1: meet team\<newline>Day 2: setup laptop''))
              jane used))
       = Some [employee_data_of john, employee_data_of jane]
   \<and> pdf (snd (main (reply (answer ''STOP'' ''Day 1: meet team\<newline>Day 2: setup laptop''))
              jane used))
       = Some [''Day 1: meet team'', ''Day 2: setup laptop'']
   \<and> downloads (snd (main (reply (answer ''STOP'' ''Day 1: meet team\<newline>Day 2: setup laptop''))
              jane used))
       = [DownloadButton [''Day 1: meet team'', ''Day 2: setup laptop'']
            ''onboarding_plan.pdf'' ''application/pdf'']"
proof -
  have h1: "api_key jane \<noteq> []" and h2: "btn_generate_plan jane"
    by (simp_all add: jane_def)
  have h3: "fst (generate_onboarding_plan
            (reply (answer ''STOP'' ''Day 1: meet team\<newline>Day 2: setup laptop''))
            (employee_data_of jane) used)
       = Inr (Some (latin1 ''Day 1: meet team\<newline>Day 2: setup laptop''))"
    by (simp add: generation_of_reply)
  have h4: "latin1 ''Day 1: meet team\<newline>Day 2: setup laptop'' \<noteq> []"
    by (simp add: latin1_def)
  have h5: "encodable (latin1 ''Day 1: meet team\<newline>Day 2: setup laptop'')"
    by (rule encodable_latin1)
  have l: "map encode (split_nl (latin1 ''Day 1: meet team\<newline>Day 2: setup laptop''))
             = [''Day 1: meet team'', ''Day 2: setup laptop'']"
    by code_simp
  show ?thesis
    using h1 h2 h3 h4 h5 plan_is_saved_and_exported [OF h1 h2 h3 h4 h5]
    by (simp add: l used_def fresh_def downloads_def)
qed

text \<open>
  C4, as the claim states it, fails: the prompt built from one profile can contain a value
  of another profile, here one whose six values all differ from the first profile's.
\<close>

theorem prompt_contains_a_value_of_another_profile:
  "map_of (employee_data_of jane) ''name'' \<noteq> map_of (employee_data_of john) ''name''
   \<and> map_of (employee_data_of john) ''name'' = Some ''Doe''
   \<and> format_str prompt_template (employee_data_of jane)
       = Inr (filled ''Jane Doe'' ''Engineer'' ''R&D'' (strftime (start_date jane))
                ''3 years backend'' ''ship onboarding docs'')
   \<and> sublist ''Doe'' (filled ''Jane Doe'' ''Engineer'' ''R&D'' (strftime (start_date jane))
                        ''3 years backend'' ''ship onboarding docs'')"
proof -
  have a: "map_of (employee_data_of jane) ''name'' \<noteq> map_of (employee_data_of john) ''name''"
    and b: "map_of (employee_data_of john) ''name'' = Some ''Doe''"
    by (simp_all add: employee_data_of_def jane_def john_def)
  have c: "format_str prompt_template (employee_data_of jane)
       = Inr (filled ''Jane Doe'' ''Engineer'' ''R&D'' (strftime (start_date jane))
                ''3 years backend'' ''ship onboarding docs'')"
    using format_employee_data [of jane] by (simp add: jane_def)
  have "''Jane Doe'' = ''Jane '' @ ''Doe'' @ []" by simp
  then have "sublist ''Doe'' ''Jane Doe''" by (metis sublist_appendI)
  then have d: "sublist ''Doe'' (filled ''Jane Doe'' ''Engineer'' ''R&D''
                  (strftime (start_date jane)) ''3 years backend'' ''ship onboarding docs'')"
    by (rule sublist_filled_name)
  show ?thesis using a b c d by simp
qed

text \<open>
  C4, amended. For a dictionary that has the six keys, the prompt is the fixed text of the
  template with the six values put in their places exactly as they are, braces and markup
  included; and that text, sent on an empty history, is what the call adds to the messages
  sent, whatever was sent before.
\<close>

theorem prompt_holds_each_value_verbatim:
  assumes "map_of d ''name'' = Some n" and "map_of d ''role'' = Some r"
    and "map_of d ''department'' = Some dep" and "map_of d ''start_date'' = Some sd"
    and "map_of d ''previous_experience'' = Some pe" and "map_of d ''goals'' = Some g"
  shows "format_str prompt_template d
           = Inr (fixed_text ! 0 @ n @ fixed_text ! 1 @ r @ fixed_text ! 2 @ dep @
                  fixed_text ! 3 @ sd @ fixed_text ! 4 @ pe @ fixed_text ! 5 @ g @
                  fixed_text ! 6)
       \<and> sent (snd (generate_onboarding_plan svc d w))
           = sent w @ [([], fixed_text ! 0 @ n @ fixed_text ! 1 @ r @ fixed_text ! 2 @ dep @
                            fixed_text ! 3 @ sd @ fixed_text ! 4 @ pe @ fixed_text ! 5 @ g @
                            fixed_text ! 6)]"
proof -
  have f: "format_str prompt_template d = Inr (filled n r dep sd pe g)"
    using assms by (rule format_prompt)
  have s: "sent (snd (generate_onboarding_plan svc d w)) = sent w @ [([], filled n r dep sd pe g)]"
    by (simp add: generate_onboarding_plan_def f Let_def
        split: sum.splits exn.splits list.splits option.splits)
  show ?thesis using f s by (simp add: filled_def)
qed

theorem prompt_holds_each_value_verbatim_witness:
  "map_of [(''name'', ''{role} <b>Jane</b>''), (''role'', ''Engineer''), (''department'', ''R&D''),
           (''start_date'', ''2024-03-01''), (''previous_experience'', ''3 years backend''),
           (''goals'', ''ship {} docs'')] ''name'' = Some ''{role} <b>Jane</b>''
   \<and> format_str prompt_template
        [(''name'', ''{role} <b>Jane</b>''), (''role'', ''Engineer''), (''department'', ''R&D''),
         (''start_date'', ''2024-03-01''), (''previous_experience'', ''3 years backend''),
         (''goals'', ''ship {} docs'')]
       = Inr (''Create a personalized onboarding plan for a new hire with the following details:'' @
              ''\<newline>\<newline>'' @
              ''        *   **Name:** {role} <b>Jane</b>\<newline>'' @
              ''        *   **Role:** Engineer\<newline>'' @
              ''        *   **Department:** R&D\<newline>'' @
              ''        *   **Start Date:** 2024-03-01\<newline>'' @
              ''        *   **Previous Experience:** 3 years backend\<newline>'' @
              ''        *   **Onboarding Goals:** ship {} docs\<newline>'' @
              ''\<newline>'' @
              ''        The plan should include:\<newline>'' @
              ''        - A checklist of tasks to be completed\<newline>'' @
              ''        - A schedule of onboarding sessions\<newline>'' @
              ''        - Links to relevant training materials\<newline>'' @
              ''        - Key contacts and resources\<newline>'' @
              ''\<newline>'' @
              ''        Write the onboarding plan in a clear and concise format.\<newline>'' @
              ''        '')"
proof -
  let ?d = "[(''name'', ''{role} <b>Jane</b>''), (''role'', ''Engineer''), (''department'', ''R&D''),
             (''start_date'', ''2024-03-01''), (''previous_experience'', ''3 years backend''),
             (''goals'', ''ship {} docs'')]"
  have h1: "map_of ?d ''name'' = Some ''{role} <b>Jane</b>''"
    and h2: "map_of ?d ''role'' = Some ''Engineer''"
    and h3: "map_of ?d ''department'' = Some ''R&D''"
    and h4: "map_of ?d ''start_date'' = Some ''2024-03-01''"
    and h5: "map_of ?d ''previous_experience'' = Some ''3 years backend''"
    and h6: "map_of ?d ''goals'' = Some ''ship {} docs''"
    by simp_all
  show ?thesis
    using h1 prompt_holds_each_value_verbatim [OF h1 h2 h3 h4 h5 h6, of "reply (Inl ValueError)" fresh]
    by (simp add: fixed_text_def)
qed

text \<open>
  C5. \<open>provide_knowledge_assistance\<close> sends one message, the fixed prefix followed by the
  query as it is, on a chat with an empty history. Whatever the candidates of the response
  say, its text is the result; an exception of the service, \<open>StopCandidateException\<close>
  included, reaches the caller.
\<close>

theorem knowledge_assistance_passes_through:
  "sent (snd (provide_knowledge_assistance svc q w)) = sent w @ [([], assistance_prefix @ q)]
   \<and> (\<forall>r t. svc [] (assistance_prefix @ q) = Inr r \<and> response_text r = Some t
         \<longrightarrow> fst (provide_knowledge_assistance svc q w) = Inr t)
   \<and> (\<forall>e. svc [] (assistance_prefix @ q) = Inl e
         \<longrightarrow> fst (provide_knowledge_assistance svc q w) = Inl e)"
  by (simp add: provide_knowledge_assistance_def Let_def split: sum.splits option.splits)

theorem knowledge_assistance_passes_through_witness:
  "sent (snd (provide_knowledge_assistance (reply (answer ''RECITATION'' ''copied text''))
                ''Where is the handbook?'' fresh))
     = [([], ''Provide a detailed response to the following query from a new hire:'' @
             ''\<newline>\<newline>Where is the handbook?'')]
   \<and> fst (provide_knowledge_assistance (reply (answer ''RECITATION'' ''copied text''))
            ''Where is the handbook?'' fresh) = Inr (latin1 ''copied text'')
   \<and> fst (provide_knowledge_assistance (reply (Inl (StopCandidateException ''stopped'')))
            ''Where is the handbook?'' fresh) = Inl (StopCandidateException ''stopped'')"
  using knowledge_assistance_passes_through
      [of "reply (answer ''RECITATION'' ''copied text'')" "''Where is the handbook?''" fresh]
    knowledge_assistance_passes_through
      [of "reply (Inl (StopCandidateException ''stopped''))" "''Where is the handbook?''" fresh]
  by (simp add: reply_def answer_def fresh_def assistance_prefix_def)

text \<open>
  C6. \<open>save_to_excel\<close>: an existing spreadsheet is written back with the one new row after
  all the rows it had; a missing one is created with exactly that row. Nothing else changes.
\<close>

theorem save_to_excel_appends_one_row:
  "(\<forall>df. xlsx w = Some df \<longrightarrow> xlsx (save_to_excel data w) = Some (df @ [data]))
   \<and> (xlsx w = None \<longrightarrow> xlsx (save_to_excel data w) = Some [data])
   \<and> row_count (xlsx (save_to_excel data w)) = row_count (xlsx w) + 1
   \<and> pdf (save_to_excel data w) = pdf w \<and> sent (save_to_excel data w) = sent w
   \<and> screen (save_to_excel data w) = screen w"
  by (simp add: save_to_excel_def row_count_def split: option.splits)

theorem save_to_excel_appends_one_row_witness:
  "xlsx used = Some [employee_data_of john]
   \<and> xlsx (save_to_excel (employee_data_of jane) used)
       = Some [employee_data_of john, employee_data_of jane]
   \<and> xlsx fresh = None
   \<and> xlsx (save_to_excel (employee_data_of jane) fresh) = Some [employee_data_of jane]"
proof -
  have h1: "xlsx used = Some [employee_data_of john]" and h2: "xlsx fresh = None"
    by (simp_all add: used_def fresh_def)
  show ?thesis
    using h1 h2 save_to_excel_appends_one_row [of used "employee_data_of jane"]
      save_to_excel_appends_one_row [of fresh "employee_data_of jane"]
    by simp
qed

text \<open>
  C7. A run of \<open>main\<close> in which the plan button was not pressed leaves the spreadsheet as
  it was, whether the knowledge-assistance call returns or raises; so does the call itself.
\<close>

theorem assistance_leaves_the_store:
  assumes "\<not> btn_generate_plan inp"
  shows "xlsx (snd (main svc inp w)) = xlsx w
       \<and> row_count (xlsx (snd (main svc inp w))) = row_count (xlsx w)
       \<and> xlsx (snd (main_get_assistance svc inp w)) = xlsx w
       \<and> xlsx (snd (provide_knowledge_assistance svc q w)) = xlsx w"
proof -
  have m: "xlsx (snd (main svc inp w)) = xlsx w"
  proof (cases "api_key inp = []")
    case True
    then show ?thesis by (simp add: main_def)
  next
    case False
    then show ?thesis using assms by (simp add: main_skip_plan)
  qed
  have p: "xlsx (snd (provide_knowledge_assistance svc q w)) = xlsx w"
    using provide_knowledge_assistance_frame(1) [of svc q w]
    by (cases "provide_knowledge_assistance svc q w") simp
  show ?thesis using m p by simp
qed

theorem assistance_leaves_the_store_witness:
  "\<not> btn_generate_plan (asking ''Where is the handbook?'')
   \<and> fst (main (reply (Inl (OtherException ''ConnectionError'')))
            (asking ''Where is the handbook?'') used) = Some (OtherException ''ConnectionError'')
   \<and> xlsx (snd (main (reply (Inl (OtherException ''ConnectionError'')))
                  (asking ''Where is the handbook?'') used)) = Some [employee_data_of john]
   \<and> fst (main (reply (answer ''STOP'' ''On the intranet.''))
            (asking ''Where is the handbook?'') used) = None
   \<and> xlsx (snd (main (reply (answer ''STOP'' ''On the intranet.''))
                  (asking ''Where is the handbook?'') used)) = Some [employee_data_of john]"
proof -
  have h: "\<not> btn_generate_plan (asking ''Where is the handbook?'')"
    by (simp add: asking_def)
  have k: "api_key (asking ''Where is the handbook?'') \<noteq> []"
    by (simp add: asking_def jane_def)
  have s: "strip ''Where is the handbook?'' \<noteq> []"
    by (simp add: strip_Nil_iff isspace_def)
  have e1: "fst (main (reply (Inl (OtherException ''ConnectionError'')))
            (asking ''Where is the handbook?'') used) = Some (OtherException ''ConnectionError'')"
    unfolding main_skip_plan [OF k h] using s
    by (simp add: main_get_assistance_def provide_knowledge_assistance_def reply_def
        asking_def Let_def)
  have e2: "fst (main (reply (answer ''STOP'' ''On the intranet.''))
            (asking ''Where is the handbook?'') used) = None"
    unfolding main_skip_plan [OF k h] using s
    by (simp add: main_get_assistance_def provide_knowledge_assistance_def reply_def
        answer_def asking_def Let_def)
  show ?thesis
    using h e1 e2
      assistance_leaves_the_store [OF h, of "reply (Inl (OtherException ''ConnectionError''))" used]
      assistance_leaves_the_store [OF h, of "reply (answer ''STOP'' ''On the intranet.'')" used]
    by (simp add: used_def fresh_def)
qed

text \<open>
  C8. When the assistance button is pressed on a query that is empty or made of white space
  only, no message is sent to the service: the page gets the warning, and the files, the
  console and the list of sent messages are as they were.
\<close>

theorem blank_query_is_only_warned:
  assumes "api_key inp \<noteq> []" and "\<not> btn_generate_plan inp" and "btn_get_assistance inp"
    and "\<forall>c \<in> set (query inp). isspace c"
  shows "main svc inp w
           = (None, show_ui (Warning ''Please enter a query to get assistance.'')
                      (show_saved_data w))
       \<and> sent (snd (main svc inp w)) = sent w
       \<and> xlsx (snd (main svc inp w)) = xlsx w
       \<and> pdf (snd (main svc inp w)) = pdf w
       \<and> stdout (snd (main svc inp w)) = stdout w"
proof -
  have "strip (query inp) = []"
    using assms(4) by (simp add: strip_Nil_iff)
  then have "main svc inp w
           = (None, show_ui (Warning ''Please enter a query to get assistance.'')
                      (show_saved_data w))"
    using assms(3) by (simp add: main_skip_plan [OF assms(1,2)] main_get_assistance_def)
  then show ?thesis by simp
qed

theorem blank_query_is_only_warned_witness:
  "api_key (asking '' '') \<noteq> [] \<and> \<not> btn_generate_plan (asking '' '')
   \<and> btn_get_assistance (asking '' '') \<and> query (asking '' '') = '' '' \<and> isspace CHR '' ''
   \<and> fst (main (reply (answer ''STOP'' ''On the intranet.'')) (asking '' '') fresh) = None
   \<and> sent (snd (main (reply (answer ''STOP'' ''On the intranet.'')) (asking '' '') fresh)) = []
   \<and> screen (snd (main (reply (answer ''STOP'' ''On the intranet.'')) (asking '' '') fresh))
       = [Warning ''Please enter a query to get assistance.'']"
proof -
  have h1: "api_key (asking '' '') \<noteq> []" and h2: "\<not> btn_generate_plan (asking '' '')"
    and h3: "btn_get_assistance (asking '' '')"
    and h4: "\<forall>c \<in> set (query (asking '' '')). isspace c"
    by (simp_all add: asking_def jane_def isspace_def)
  have h5: "query (asking '' '') = '' ''" and h6: "isspace CHR '' ''"
    by (simp_all add: asking_def isspace_def)
  show ?thesis
    using h1 h2 h3 h5 h6
      blank_query_is_only_warned [OF h1 h2 h3 h4, of "reply (answer ''STOP'' ''On the intranet.'')" fresh]
    by (simp add: fresh_def show_saved_data_def)
qed

text \<open>
  C9. A plan that comes back as the empty string is handled as a failure: the spreadsheet
  and the document stay as they were, no download is offered, and the page gets the
  failure banner.
\<close>

theorem empty_plan_is_a_failure:
  assumes "api_key inp \<noteq> []" and "btn_generate_plan inp"
    and "fst (generate_onboarding_plan svc (employee_data_of inp) w) = Inr (Some [])"
  shows "xlsx (snd (main svc inp w)) = xlsx w
       \<and> row_count (xlsx (snd (main svc inp w))) = row_count (xlsx w)
       \<and> pdf (snd (main svc inp w)) = pdf w
       \<and> downloads (snd (main svc inp w)) = downloads w
       \<and> Error (''Onboarding plan generation failed due to '' @
                 ''recitation issues or an error. Please adjust the inputs.'')
           \<in> set (screen (snd (main svc inp w)))"
  using unusable_plan [OF assms] by simp

theorem empty_plan_is_a_failure_witness:
  "api_key john \<noteq> [] \<and> btn_generate_plan john
   \<and> fst (generate_onboarding_plan (reply (answer ''STOP'' [])) (employee_data_of john) fresh)
       = Inr (Some [])
   \<and> xlsx (snd (main (reply (answer ''STOP'' [])) john fresh)) = None
   \<and> pdf (snd (main (reply (answer ''STOP'' [])) john fresh)) = None
   \<and> downloads (snd (main (reply (answer ''STOP'' [])) john fresh)) = []"
proof -
  have h1: "api_key john \<noteq> []" and h2: "btn_generate_plan john"
    by (simp_all add: john_def)
  have h3: "fst (generate_onboarding_plan (reply (answer ''STOP'' [])) (employee_data_of john)
              fresh) = Inr (Some [])"
    by (simp add: generation_of_reply)
  show ?thesis
    using h1 h2 h3 empty_plan_is_a_failure [OF h1 h2 h3]
    by (simp add: fresh_def downloads_def)
qed

text \<open>
  C10. A response without candidates is never turned into the return value \<open>None\<close>: the
  recitation test is passed over, the text is read, and what reading it gives, the text or
  the \<open>ValueError\<close> of the accessor, is what the caller gets.
\<close>

theorem no_candidates_is_not_filtered:
  assumes "format_str prompt_template d = Inr p" and "svc [] p = Inr r" and "candidates r = []"
  shows "fst (generate_onboarding_plan svc d w)
           = (case response_text r of None \<Rightarrow> Inl ValueError | Some t \<Rightarrow> Inr (Some t))
       \<and> fst (generate_onboarding_plan svc d w) \<noteq> Inr None"
  using assms by (simp add: generate_onboarding_plan_def split: option.splits)

theorem no_candidates_is_not_filtered_witness:
  "format_str prompt_template (employee_data_of jane)
     = Inr (filled ''Jane Doe'' ''Engineer'' ''R&D'' (strftime (start_date jane))
              ''3 years backend'' ''ship onboarding docs'')
   \<and> candidates \<lparr>candidates = [], response_text = None\<rparr> = []
   \<and> fst (generate_onboarding_plan (reply (Inr \<lparr>candidates = [], response_text = None\<rparr>))
            (employee_data_of jane) fresh) = Inl ValueError"
proof -
  have h1: "format_str prompt_template (employee_data_of jane)
     = Inr (filled ''Jane Doe'' ''Engineer'' ''R&D'' (strftime (start_date jane))
              ''3 years backend'' ''ship onboarding docs'')"
    using format_employee_data [of jane] by (simp add: jane_def)
  have h2: "reply (Inr \<lparr>candidates = [], response_text = None\<rparr>) []
              (filled ''Jane Doe'' ''Engineer'' ''R&D'' (strftime (start_date jane))
                 ''3 years backend'' ''ship onboarding docs'')
            = Inr \<lparr>candidates = [], response_text = None\<rparr>"
    by (simp add: reply_def)
  have h3: "candidates \<lparr>candidates = [], response_text = None\<rparr> = []" by simp
  show ?thesis
    using h1 h3
      no_candidates_is_not_filtered
        [where svc = "reply (Inr \<lparr>candidates = [], response_text = None\<rparr>)" and w = fresh,
         OF h1 h2 h3]
    by simp
qed

end
